theory Spec2Isabelle
  imports Complex_Main "HOL-Library.AList"
begin

section \<open>Numbers as the C++ code sees them\<close>

subsection \<open>32-bit integers\<close>

text \<open>
  \<open>int\<close> and \<open>unsigned\<close> are 32 bits wide. A value that is converted to \<open>int\<close>
  (the \<open>long\<close> returned by \<open>strtol\<close>, an \<open>unsigned\<close> stored in a \<open>vector<int>\<close>)
  is reduced modulo \<open>2^32\<close> into the signed range.
\<close>

definition to_int32 :: "int \<Rightarrow> int" where
  "to_int32 v = (v + 2147483648) mod 4294967296 - 2147483648"

definition is_digit :: "char \<Rightarrow> bool" where
  "is_digit c = (c \<in> set ''0123456789'')"

definition digit_val :: "char \<Rightarrow> nat" where
  "digit_val c = length (takeWhile (\<lambda>d. d \<noteq> c) ''0123456789'')"

fun digits_val :: "nat \<Rightarrow> string \<Rightarrow> nat" where
  "digits_val acc [] = acc"
| "digits_val acc (c # cs) = digits_val (acc * 10 + digit_val c) cs"

definition is_space :: "char \<Rightarrow> bool" where
  "is_space c = (of_char c \<in> {32::nat, 9, 10, 11, 12, 13})"

text \<open>
  \<open>strtol(s, 0, 10)\<close> of the C library: leading white space, an optional sign, the longest
  run of decimal digits (none gives 0), clamped to the range of a 64-bit \<open>long\<close>.
\<close>

definition strtol :: "string \<Rightarrow> int" where
  "strtol s =
     (let t = dropWhile is_space s;
          (neg, u) = (case t of [] \<Rightarrow> (False, [])
                      | c # cs \<Rightarrow> if c = CHR ''-'' then (True, cs)
                                 else if c = CHR ''+'' then (False, cs) else (False, t));
          n = int (digits_val 0 (takeWhile is_digit u));
          v = (if neg then - n else n)
      in max (- 9223372036854775808) (min 9223372036854775807 v))"

subsection \<open>Decimal output of integers\<close>

definition digit_char :: "nat \<Rightarrow> char" where
  "digit_char d = ''0123456789'' ! d"

fun show_nat :: "nat \<Rightarrow> string" where
  "show_nat n =
     (if n < 10 then [digit_char n]
      else show_nat (n div 10) @ [digit_char (n mod 10)])"

declare show_nat.simps [simp del]

definition show_int :: "int \<Rightarrow> string" where
  "show_int i = (if i < 0 then CHR ''-'' # show_nat (nat (- i)) else show_nat (nat i))"

subsection \<open>Floating point\<close>

text \<open>
  A \<open>float\<close> is an IEEE 754 binary32 value, a \<open>double\<close> a binary64 value. A finite
  value is represented by the rational it denotes; the two infinities are kept apart.
  Every operation computes the exact result and rounds it to the nearest representable
  value, ties to even.
\<close>

datatype cfloat = Fin rat | PInf | NInf | NaN

fun bitlen_nat :: "nat \<Rightarrow> nat" where
  "bitlen_nat n = (if n = 0 then 0 else Suc (bitlen_nat (n div 2)))"

declare bitlen_nat.simps [simp del]

definition pow2 :: "int \<Rightarrow> rat" where
  "pow2 e = (if 0 \<le> e then 2 ^ nat e else 1 / 2 ^ nat (- e))"

definition round_even :: "rat \<Rightarrow> int" where
  "round_even x =
     (let f = \<lfloor>x\<rfloor>; d = x - of_int f
      in if d < 1 / 2 then f else if 1 / 2 < d then f + 1
         else if even f then f else f + 1)"

text \<open>
  The binary exponent of a positive rational \<open>a\<close>: the greatest \<open>e\<close> with
  \<open>2^e \<le> a\<close>, but not below the least normal exponent \<open>emin\<close> of the format
  (smaller values are subnormal and share the quantum of \<open>emin\<close>).
\<close>

definition fp_exponent :: "int \<Rightarrow> rat \<Rightarrow> int" where
  "fp_exponent emin a =
     (if a \<le> 0 then emin
      else if 1 \<le> a then int (bitlen_nat (nat \<lfloor>a\<rfloor>)) - 1
      else max emin (- int (bitlen_nat (nat (- \<lfloor>- (1 / a)\<rfloor> - 1)))))"

text \<open>
  Rounding to a binary format with \<open>p\<close> significant bits and least normal exponent
  \<open>emin\<close>, before the overflow test: the value is rounded to a multiple of the quantum
  \<open>2^(e - p + 1)\<close>.
\<close>

definition fp_round :: "nat \<Rightarrow> int \<Rightarrow> rat \<Rightarrow> rat" where
  "fp_round p emin x =
     (let q = pow2 (fp_exponent emin \<bar>x\<bar> - int p + 1)
      in sgn x * of_int (round_even (\<bar>x\<bar> / q)) * q)"

definition to_float :: "rat \<Rightarrow> cfloat" where
  "to_float x =
     (let r = fp_round 24 (- 126) x
      in if 2 ^ 128 \<le> r then PInf else if r \<le> - (2 ^ 128) then NInf else Fin r)"

definition to_double :: "rat \<Rightarrow> rat" where
  "to_double x = fp_round 53 (- 1022) x"

text \<open>
  \<open>strtof\<close> of the C library on a decimal literal: leading white space, an optional
  sign, digits with an optional fraction, an optional exponent; the exact decimal value
  is rounded once to binary32. A text without digits converts to 0. (Hexadecimal
  literals and the words \<open>inf\<close> and \<open>nan\<close> are outside this model; the sign of a
  zero is not represented.)
\<close>

definition split_sign :: "string \<Rightarrow> bool \<times> string" where
  "split_sign t =
     (case t of [] \<Rightarrow> (False, [])
      | c # cs \<Rightarrow> if c = CHR ''-'' then (True, cs)
                 else if c = CHR ''+'' then (False, cs) else (False, t))"

definition pow10 :: "int \<Rightarrow> rat" where
  "pow10 e = (if 0 \<le> e then 10 ^ nat e else 1 / 10 ^ nat (- e))"

definition dec_exponent :: "string \<Rightarrow> int" where
  "dec_exponent r =
     (case r of [] \<Rightarrow> 0
      | c # cs \<Rightarrow>
          if c = CHR ''e'' \<or> c = CHR ''E'' then
            (let ds = takeWhile is_digit (snd (split_sign cs));
                 n = int (digits_val 0 ds)
             in if ds = [] then 0 else if fst (split_sign cs) then - n else n)
          else 0)"

definition strtof :: "string \<Rightarrow> cfloat" where
  "strtof s =
     (let t = split_sign (dropWhile is_space s);
          ip = takeWhile is_digit (snd t);
          r1 = dropWhile is_digit (snd t);
          fp = (case r1 of [] \<Rightarrow> []
                | c # cs \<Rightarrow> if c = CHR ''.'' then takeWhile is_digit cs else []);
          r2 = (case r1 of [] \<Rightarrow> []
                | c # cs \<Rightarrow> if c = CHR ''.'' then dropWhile is_digit cs else r1);
          v = of_nat (digits_val 0 (ip @ fp)) / 10 ^ length fp * pow10 (dec_exponent r2)
      in if ip = [] \<and> fp = [] then Fin 0
         else to_float (if fst t then - v else v))"

text \<open>Arithmetic and comparisons on \<open>float\<close> values, as the compiler uses them.\<close>

fun fadd :: "cfloat \<Rightarrow> cfloat \<Rightarrow> cfloat" where
  "fadd (Fin a) (Fin b) = to_float (a + b)"
| "fadd NaN _ = NaN"
| "fadd _ NaN = NaN"
| "fadd PInf NInf = NaN"
| "fadd NInf PInf = NaN"
| "fadd PInf _ = PInf"
| "fadd _ PInf = PInf"
| "fadd NInf _ = NInf"
| "fadd _ NInf = NInf"

text \<open>
  \<open>1.0 - x\<close> for a \<open>float\<close> \<open>x\<close>: the subtraction is done in \<open>double\<close> and the result
  is stored in a \<open>float\<close>.
\<close>

fun one_minus :: "cfloat \<Rightarrow> cfloat" where
  "one_minus (Fin a) = to_float (to_double (1 - a))"
| "one_minus PInf = NInf"
| "one_minus NInf = PInf"
| "one_minus NaN = NaN"

text \<open>\<open>x * 0x10000\<close>: the \<open>int\<close> is converted to \<open>float\<close>, the product is a \<open>float\<close>.\<close>

fun times_0x10000 :: "cfloat \<Rightarrow> cfloat" where
  "times_0x10000 (Fin a) = to_float (a * 65536)"
| "times_0x10000 x = x"

fun flt_less :: "cfloat \<Rightarrow> rat \<Rightarrow> bool" where
  "flt_less (Fin a) c = (a < c)"
| "flt_less NInf c = True"
| "flt_less _ c = False"

fun flt_greater :: "cfloat \<Rightarrow> rat \<Rightarrow> bool" where
  "flt_greater (Fin a) c = (c < a)"
| "flt_greater PInf c = True"
| "flt_greater _ c = False"

definition trunc :: "rat \<Rightarrow> int" where
  "trunc v = (if v < 0 then - \<lfloor>- v\<rfloor> else \<lfloor>v\<rfloor>)"

text \<open>
  The cast \<open>(unsigned)x\<close> of a \<open>float\<close>: the fraction is discarded; the behaviour is
  undefined (\<open>None\<close>) unless the truncated value fits 32 unsigned bits.
\<close>

fun to_unsigned :: "cfloat \<Rightarrow> int option" where
  "to_unsigned (Fin a) =
     (if 0 \<le> trunc a \<and> trunc a < 4294967296 then Some (trunc a) else None)"
| "to_unsigned _ = None"

text \<open>The conversion \<open>(unsigned)(x * 0x10000)\<close> of a weight or an offload.\<close>

definition fixed_point :: "cfloat \<Rightarrow> int option" where
  "fixed_point x = to_unsigned (times_0x10000 x)"

text \<open>\<open>(float)i\<close> for an \<open>int\<close>, and \<open>(float)i / (float)0x10000\<close>.\<close>

definition int_to_float :: "int \<Rightarrow> cfloat" where
  "int_to_float i = to_float (of_int i)"

fun div_0x10000 :: "cfloat \<Rightarrow> cfloat" where
  "div_0x10000 (Fin a) = to_float (a / 65536)"
| "div_0x10000 x = x"

section \<open>Output streams and process termination\<close>

text \<open>
  What is inserted into \<open>cout\<close> or \<open>cerr\<close> is kept as a list of pieces, in order: text
  (strings, characters and integers, the latter in decimal) and \<open>float\<close> values, whose
  formatting by the stream is not modelled.
\<close>

datatype piece = Txt string | Flt cfloat

type_synonym out = "piece list"

definition endl :: piece where
  "endl = Txt [CHR 0x0A]"

definition Dec :: "int \<Rightarrow> piece" where
  "Dec i = Txt (show_int i)"

text \<open>
  How a run stops early: \<open>exit(n)\<close>, a failed \<open>assert\<close> or an uncaught exception
  (\<open>Abort\<close>), or an operation whose behaviour C++ leaves undefined. A failure carries
  what had been written to \<open>cout\<close> and \<open>cerr\<close> by then.
\<close>

datatype stop = Exit int | Abort | Undefined

datatype failure = Failure stop out out

section \<open>The map wrapper\<close>

text \<open>
  Modelled from the spec: the class \<open>CrushWrapper\<close> (crush/CrushWrapper.h) and the
  constants of crush/crush.h are not among the sources. The model keeps what the spec's
  data model names: \<open>max_devices\<close>, the bucket table, the rule table, the device offload
  vector and the three id-to-name tables. A bucket holds its algorithm, its type and
  the parallel vectors of child items and child weights; a rule holds its mask and its
  steps. The tables that \<open>finalize\<close> precomputes for selection are not represented.
\<close>

datatype bucket_alg =
  CRUSH_BUCKET_UNIFORM | CRUSH_BUCKET_LIST | CRUSH_BUCKET_TREE | CRUSH_BUCKET_STRAW

datatype rule_op =
  CRUSH_RULE_NOOP | CRUSH_RULE_TAKE | CRUSH_RULE_EMIT
| CRUSH_RULE_CHOOSE_FIRSTN | CRUSH_RULE_CHOOSE_INDEP
| CRUSH_RULE_CHOOSE_LEAF_FIRSTN | CRUSH_RULE_CHOOSE_LEAF_INDEP

datatype pg_type = CEPH_PG_TYPE_REP | CEPH_PG_TYPE_RAID4 | PG_TYPE_OTHER int

record bucket =
  b_alg :: "bucket_alg option"
  b_type :: int
  b_children :: "(int \<times> int) list"

record rule =
  r_pool :: int
  r_type :: pg_type
  r_min_size :: int
  r_max_size :: int
  r_steps :: "(rule_op \<times> int \<times> int) list"

record crush_map =
  max_devices :: int
  buckets :: "(int \<times> bucket) list"
  rules :: "rule option list"
  offload :: "(int \<times> int) list"
  type_names :: "(int \<times> string) list"
  item_names :: "(int \<times> string) list"
  rule_names :: "(int \<times> string) list"

definition create :: crush_map where
  "create = \<lparr>max_devices = 0, buckets = [], rules = [], offload = [],
     type_names = [], item_names = [], rule_names = []\<rparr>"

definition set_item_name :: "int \<Rightarrow> string \<Rightarrow> crush_map \<Rightarrow> crush_map" where
  "set_item_name i name c = c\<lparr>item_names := AList.update i name (item_names c)\<rparr>"

definition set_type_name :: "int \<Rightarrow> string \<Rightarrow> crush_map \<Rightarrow> crush_map" where
  "set_type_name i name c = c\<lparr>type_names := AList.update i name (type_names c)\<rparr>"

definition set_rule_name :: "int \<Rightarrow> string \<Rightarrow> crush_map \<Rightarrow> crush_map" where
  "set_rule_name i name c = c\<lparr>rule_names := AList.update i name (rule_names c)\<rparr>"

definition get_max_devices :: "crush_map \<Rightarrow> int" where
  "get_max_devices c = max_devices c"

definition set_max_devices :: "int \<Rightarrow> crush_map \<Rightarrow> crush_map" where
  "set_max_devices n c = c\<lparr>max_devices := n\<rparr>"

definition add_bucket ::
  "int \<Rightarrow> bucket_alg option \<Rightarrow> int \<Rightarrow> int list \<Rightarrow> int list \<Rightarrow> crush_map \<Rightarrow> crush_map" where
  "add_bucket i alg ty its ws c =
     c\<lparr>buckets := AList.update i
          \<lparr>b_alg = alg, b_type = ty, b_children = zip its ws\<rparr> (buckets c)\<rparr>"

text \<open>
  \<open>add_rule(len, pool, type, min_size, max_size, -1)\<close>: the rule takes the first free
  slot of the rule table, with \<open>len\<close> steps that are no-ops until they are set; the
  slot's index is returned.
\<close>

fun first_free_slot :: "rule option list \<Rightarrow> nat" where
  "first_free_slot [] = 0"
| "first_free_slot (None # rs) = 0"
| "first_free_slot (Some r # rs) = Suc (first_free_slot rs)"

definition add_rule ::
  "nat \<Rightarrow> int \<Rightarrow> pg_type \<Rightarrow> int \<Rightarrow> int \<Rightarrow> crush_map \<Rightarrow> nat \<times> crush_map" where
  "add_rule len pool ty mn mx c =
     (let n = first_free_slot (rules c);
          r = \<lparr>r_pool = pool, r_type = ty, r_min_size = mn, r_max_size = mx,
               r_steps = replicate len (CRUSH_RULE_NOOP, 0, 0)\<rparr>
      in (n, c\<lparr>rules := (if n < length (rules c) then (rules c)[n := Some r]
                            else rules c @ [Some r])\<rparr>))"

definition map_index_rule ::
  "nat \<Rightarrow> nat \<Rightarrow> rule_op \<times> int \<times> int \<Rightarrow> rule option list \<Rightarrow> rule option list" where
  "map_index_rule ruleno n stp rs =
     (if ruleno < length rs then
        (case rs ! ruleno of None \<Rightarrow> rs
         | Some r \<Rightarrow> rs[ruleno := Some (r\<lparr>r_steps := (r_steps r)[n := stp]\<rparr>)])
      else rs)"

definition set_rule_step ::
  "nat \<Rightarrow> nat \<Rightarrow> rule_op \<Rightarrow> int \<Rightarrow> int \<Rightarrow> crush_map \<Rightarrow> crush_map" where
  "set_rule_step ruleno n opc a1 a2 c =
     c\<lparr>rules := map_index_rule ruleno n (opc, a1, a2) (rules c)\<rparr>"

text \<open>
  \<open>finalize\<close>, as far as the spec states it for this model: \<open>max_devices\<close> becomes the
  maximum of its value and of every child id plus one.
\<close>

definition finalize :: "crush_map \<Rightarrow> crush_map" where
  "finalize c =
     c\<lparr>max_devices :=
         foldl max (max_devices c) (map (\<lambda>i. i + 1) (concat (map (map fst \<circ> b_children \<circ> snd) (buckets c))))\<rparr>"

definition set_offload :: "int \<Rightarrow> int \<Rightarrow> crush_map \<Rightarrow> crush_map" where
  "set_offload i v c = c\<lparr>offload := AList.update i v (offload c)\<rparr>"

definition get_device_offload :: "crush_map \<Rightarrow> int \<Rightarrow> int" where
  "get_device_offload c i = (case map_of (offload c) i of None \<Rightarrow> 0 | Some v \<Rightarrow> v)"

section \<open>The parse tree\<close>

text \<open>
  Modelled from the spec: the grammar (crush/grammar.h) is not among the sources. The
  parse tree is given the shape in which the compiler reads it, with the text of each
  leaf it converts or compares kept as a string:
  \<^item> a device node with children 1 and 2 (id, name) and the remaining children
    (\<open>offload v\<close>, \<open>load v\<close> or \<open>down\<close>, if any);
  \<^item> a type node with children 1 and 2 (id, name);
  \<^item> a bucket node with children 0 and 1 (type name, bucket name) and its lines, each
    with child 0 (the tag), child 1 and the following children in pairs;
  \<^item> a rule node with child 1 (the name, or the opening brace when there is none), the
    pool, the type name, \<open>min_size\<close>, \<open>max_size\<close> and the steps;
  \<^item> a node of any other kind.
\<close>

datatype bucket_line = BucketLine string string "(string \<times> string) list"

datatype step_node =
  StepTake string
| StepChoose string string string string
| StepEmit
| StepOther int

datatype node =
  Device string string "string list"
| BucketType string string
| BucketNode string string "bucket_line list"
| CrushRule string string string string string "step_node list"
| OtherNode

definition int_node :: "string \<Rightarrow> int" where
  "int_node str = to_int32 (strtol str)"

definition float_node :: "string \<Rightarrow> cfloat" where
  "float_node s = strtof s"

section \<open>The compiler's global tables\<close>

text \<open>
  The \<open>std::map\<close> globals of crushtool.cc, the \<open>verbose\<close> counter, the map under
  construction and the two output streams. A \<open>std::map\<close> is an association list with
  one entry for each key.
\<close>

record pstate =
  item_id :: "(string \<times> int) list"
  id_item :: "(int \<times> string) list"
  item_weight :: "(int \<times> cfloat) list"
  device_offload :: "(int \<times> int) list"
  type_id :: "(string \<times> int) list"
  rule_id :: "(string \<times> int) list"
  verbose :: int
  crush :: crush_map
  cout :: out
  cerr :: out

definition count :: "('k \<times> 'v) list \<Rightarrow> 'k \<Rightarrow> bool" where
  "count m k = (map_of m k \<noteq> None)"

text \<open>\<open>m[k]\<close>, read: the stored value, or the default-constructed one.\<close>

definition lookup :: "'v \<Rightarrow> ('k \<times> 'v) list \<Rightarrow> 'k \<Rightarrow> 'v" where
  "lookup d m k = (case map_of m k of None \<Rightarrow> d | Some v \<Rightarrow> v)"

definition quote :: piece where
  "quote = Txt [CHR 0x27]"

definition say :: "out \<Rightarrow> pstate \<Rightarrow> pstate" where
  "say ps st = (if verbose st \<noteq> 0 then st\<lparr>cout := cout st @ ps\<rparr> else st)"

text \<open>Writing a message to \<open>cerr\<close> and calling \<open>exit(1)\<close>; a failed \<open>assert\<close>.\<close>

definition die :: "out \<Rightarrow> pstate \<Rightarrow> failure + 'a" where
  "die msg st = Inl (Failure (Exit 1) (cout st) (cerr st @ msg))"

definition halt :: "stop \<Rightarrow> pstate \<Rightarrow> failure + 'a" where
  "halt why st = Inl (Failure why (cout st) (cerr st))"

section \<open>parse_device\<close>

definition finish_device :: "int \<Rightarrow> pstate \<Rightarrow> failure + pstate" where
  "finish_device i st =
     (let st1 = say [endl] st
      in Inr (if get_max_devices (crush st1) \<le> i
              then st1\<lparr>crush := set_max_devices (i + 1) (crush st1)\<rparr> else st1))"

definition check_offload :: "int \<Rightarrow> string \<Rightarrow> cfloat \<Rightarrow> pstate \<Rightarrow> failure + pstate" where
  "check_offload i name ofl st =
     (let st1 = say [Txt '' offload '', Flt ofl] st
      in if flt_less ofl 0 \<or> flt_greater ofl 1 then
           die [Txt ''illegal device offload '', Flt ofl, Txt '' on device '', Dec i,
                Txt '' '', Txt name, Txt '' (valid range is [0,1])'', endl] st1
         else (case fixed_point ofl of
                 None \<Rightarrow> halt Undefined st1
               | Some u \<Rightarrow>
                   finish_device i
                     (st1\<lparr>device_offload := AList.update i (to_int32 u) (device_offload st1)\<rparr>)))"

definition parse_device :: "string \<Rightarrow> string \<Rightarrow> string list \<Rightarrow> pstate \<Rightarrow> failure + pstate" where
  "parse_device idtext name rest st =
     (let i = int_node idtext;
          st1 = st\<lparr>crush := set_item_name i name (crush st)\<rparr>
      in if count (item_id st1) name then
           die [Txt ''item '', Txt name, Txt '' defined twice'', endl] st1
         else
           (let st2 = say [Txt ''device '', Dec i, Txt '' '', Txt name]
                        (st1\<lparr>item_id := AList.update name i (item_id st1),
                             id_item := AList.update i name (id_item st1)\<rparr>)
            in case rest of
                 [] \<Rightarrow> finish_device i st2
               | tag # vs \<Rightarrow>
                   if tag = ''offload'' then
                     (case vs of [] \<Rightarrow> halt Undefined st2
                      | v # _ \<Rightarrow> check_offload i name (float_node v) st2)
                   else if tag = ''load'' then
                     (case vs of [] \<Rightarrow> halt Undefined st2
                      | v # _ \<Rightarrow> check_offload i name (one_minus (float_node v)) st2)
                   else if tag = ''down'' then check_offload i name (Fin 1) st2
                   else halt Abort st2))"

section \<open>parse_bucket_type\<close>

definition parse_bucket_type :: "string \<Rightarrow> string \<Rightarrow> pstate \<Rightarrow> failure + pstate" where
  "parse_bucket_type idtext name st =
     (let i = int_node idtext;
          st1 = say [Txt ''type '', Dec i, Txt '' '', Txt name, endl] st
      in Inr (st1\<lparr>type_id := AList.update name i (type_id st1),
                  crush := set_type_name i name (crush st1)\<rparr>))"

section \<open>parse_bucket\<close>

text \<open>The first pass over an item line: which explicit positions are taken.\<close>

fun scan_item_opts ::
  "string \<Rightarrow> string \<Rightarrow> (string \<times> string) list \<Rightarrow> int list \<Rightarrow> pstate \<Rightarrow> failure + int list" where
  "scan_item_opts iname bname [] used st = Inr used"
| "scan_item_opts iname bname ((tag, v) # rest) used st =
     (if tag = ''pos'' then
        (if int_node v \<in> set used then
           die [Txt ''item '', quote, Txt iname, quote, Txt '' in bucket '', quote, Txt bname,
                quote, Txt '' has explicit pos '', Dec (int_node v),
                Txt '', which is occupied'', endl] st
         else scan_item_opts iname bname rest (int_node v # used) st)
      else scan_item_opts iname bname rest used st)"

definition alg_of_name :: "string \<Rightarrow> bucket_alg option" where
  "alg_of_name a =
     (if a = ''uniform'' then Some CRUSH_BUCKET_UNIFORM
      else if a = ''list'' then Some CRUSH_BUCKET_LIST
      else if a = ''tree'' then Some CRUSH_BUCKET_TREE
      else if a = ''straw'' then Some CRUSH_BUCKET_STRAW
      else None)"

text \<open>
  The first loop over the lines of a bucket block: the explicit id (0 when there is
  none), the algorithm (\<open>None\<close> for the initial \<open>-1\<close>), the explicit positions and the
  number of items.
\<close>

fun scan_lines ::
  "string \<Rightarrow> bucket_line list \<Rightarrow> int \<times> bucket_alg option \<times> int list \<times> int \<Rightarrow> pstate
     \<Rightarrow> failure + int \<times> bucket_alg option \<times> int list \<times> int" where
  "scan_lines bname [] acc st = Inr acc"
| "scan_lines bname (BucketLine tag a opts # ls) (i, alg, used, sz) st =
     (if tag = ''id'' then scan_lines bname ls (int_node a, alg, used, sz) st
      else if tag = ''alg'' then
        (case alg_of_name a of
           None \<Rightarrow> die [Txt ''unknown bucket alg '', quote, Txt a, quote, endl] st
         | Some g \<Rightarrow> scan_lines bname ls (i, Some g, used, sz) st)
      else if tag = ''item'' then
        (case scan_item_opts a bname opts used st of
           Inl f \<Rightarrow> Inl f
         | Inr used' \<Rightarrow> scan_lines bname ls (i, alg, used', sz + 1) st)
      else halt Abort st)"

fun list_max :: "int list \<Rightarrow> int" where
  "list_max [] = 0"
| "list_max [x] = x"
| "list_max (x # y # ys) = max x (list_max (y # ys))"

text \<open>The second pass over an item line: its weight and its position.\<close>

fun apply_item_opts ::
  "(string \<times> string) list \<Rightarrow> cfloat \<times> int \<Rightarrow> pstate \<Rightarrow> failure + cfloat \<times> int" where
  "apply_item_opts [] acc st = Inr acc"
| "apply_item_opts ((tag, v) # rest) (weight, pos) st =
     (if tag = ''weight'' then apply_item_opts rest (float_node v, pos) st
      else if tag = ''pos'' then apply_item_opts rest (weight, int_node v) st
      else halt Abort st)"

text \<open>\<open>while (used_items.count(curpos)) curpos++\<close>\<close>

function next_free :: "int list \<Rightarrow> int \<Rightarrow> int" where
  "next_free used c = (if c \<in> set used then next_free used (c + 1) else c)"
  by pat_completeness auto
termination
proof (relation "measure (\<lambda>(used, c). card {k \<in> set used. c \<le> k})")
  show "wf (measure (\<lambda>(used, c). card {k \<in> set used. c \<le> k}))"
    by simp
next
  fix used :: "int list" and c :: int
  assume m: "c \<in> set used"
  have "c \<in> {k \<in> set used. c \<le> k}" and "c \<notin> {k \<in> set used. c + 1 \<le> k}"
    using m by simp_all
  moreover have "{k \<in> set used. c + 1 \<le> k} \<subseteq> {k \<in> set used. c \<le> k}"
    by auto
  ultimately have "{k \<in> set used. c + 1 \<le> k} \<subset> {k \<in> set used. c \<le> k}"
    by blast
  then have "card {k \<in> set used. c + 1 \<le> k} < card {k \<in> set used. c \<le> k}"
    by (intro psubset_card_mono) simp_all
  then show "((used, c + 1), (used, c)) \<in> measure (\<lambda>(used, c). card {k \<in> set used. c \<le> k})"
    by simp
qed

declare next_free.simps [simp del]

text \<open>\<open>for (id = -1; id_item.count(id); id--) ;\<close>\<close>

function next_bucket_id :: "(int \<times> string) list \<Rightarrow> int \<Rightarrow> int" where
  "next_bucket_id m i = (if count m i then next_bucket_id m (i - 1) else i)"
  by pat_completeness auto
termination
proof (relation "measure (\<lambda>(m, i). card {k \<in> fst ` set m. k \<le> i})")
  show "wf (measure (\<lambda>(m, i). card {k \<in> fst ` set m. k \<le> i}))"
    by simp
next
  fix m :: "(int \<times> string) list" and i :: int
  assume "count m i"
  then have mem: "i \<in> fst ` set m"
    by (simp add: count_def map_of_eq_None_iff)
  have "i \<in> {k \<in> fst ` set m. k \<le> i}" and "i \<notin> {k \<in> fst ` set m. k \<le> i - 1}"
    using mem by simp_all
  moreover have "{k \<in> fst ` set m. k \<le> i - 1} \<subseteq> {k \<in> fst ` set m. k \<le> i}"
    by auto
  ultimately have "{k \<in> fst ` set m. k \<le> i - 1} \<subset> {k \<in> fst ` set m. k \<le> i}"
    by blast
  then have "card {k \<in> fst ` set m. k \<le> i - 1} < card {k \<in> fst ` set m. k \<le> i}"
    by (intro psubset_card_mono) simp_all
  then show "((m, i - 1), (m, i)) \<in> measure (\<lambda>(m, i). card {k \<in> fst ` set m. k \<le> i})"
    by simp
qed

declare next_bucket_id.simps [simp del]

text \<open>
  The weight of an item before its options are read: 1.0, or the weight recorded
  for its id in \<open>item_weight\<close>.
\<close>

definition default_weight :: "pstate \<Rightarrow> int \<Rightarrow> cfloat" where
  "default_weight st itemid =
     (if count (item_weight st) itemid then lookup (Fin 0) (item_weight st) itemid else Fin 1)"

text \<open>
  The second loop over the lines: every item is looked up, given its weight and its
  position, and stored in the two vectors of length \<open>sz\<close>. A write outside the
  vectors is undefined.
\<close>

fun place_items ::
  "string \<Rightarrow> bucket_line list \<Rightarrow> int list \<Rightarrow> int \<Rightarrow> int \<times> cfloat \<times> int list \<times> int list
     \<Rightarrow> pstate \<Rightarrow> failure + int \<times> cfloat \<times> int list \<times> int list" where
  "place_items bname [] used sz acc st = Inr acc"
| "place_items bname (BucketLine tag iname opts # ls) used sz (curpos, bucketweight, items, weights) st =
     (if tag = ''item'' then
        (if \<not> count (item_id st) iname then
           die [Txt ''item '', quote, Txt iname, quote, Txt '' in bucket '', quote, Txt bname,
                quote, Txt '' is not defined'', endl] st
         else
           (case apply_item_opts opts
                   (default_weight st (lookup 0 (item_id st) iname), - 1) st of
              Inl f \<Rightarrow> Inl f
            | Inr (weight, pos) \<Rightarrow>
                if sz \<le> pos then
                  die [Txt ''item '', quote, Txt iname, quote, Txt '' in bucket '', quote,
                       Txt bname, quote, Txt '' has pos '', Dec pos, Txt '' >= size '',
                       Dec sz, endl] st
                else
                  (let p = (if pos < 0 then next_free used curpos else pos);
                       curpos' = (if pos < 0 then p + 1 else curpos)
                   in if p < 0 \<or> sz \<le> p then halt Undefined st
                      else
                        (case fixed_point weight of
                           None \<Rightarrow> halt Undefined st
                         | Some u \<Rightarrow>
                             place_items bname ls used sz
                               (curpos', fadd bucketweight weight,
                                items[nat p := lookup 0 (item_id st) iname],
                                weights[nat p := to_int32 u]) st))))
      else place_items bname ls used sz (curpos, bucketweight, items, weights) st)"

definition register_bucket ::
  "string \<Rightarrow> int \<Rightarrow> bucket_alg option \<Rightarrow> int \<Rightarrow> int \<Rightarrow> cfloat \<Rightarrow> int list \<Rightarrow> int list
     \<Rightarrow> pstate \<Rightarrow> pstate" where
  "register_bucket name i alg ty sz bucketweight items weights st =
     (let st1 = say [Txt ''bucket '', Txt name, Txt '' ('', Dec i, Txt '') '', Dec sz,
                     Txt '' items and weight '', Flt bucketweight, endl] st
      in st1\<lparr>id_item := AList.update i name (id_item st1),
             item_id := AList.update name i (item_id st1),
             item_weight := AList.update i bucketweight (item_weight st1),
             crush := set_item_name i name (add_bucket i alg ty items weights (crush st1))\<rparr>)"

definition parse_bucket :: "string \<Rightarrow> string \<Rightarrow> bucket_line list \<Rightarrow> pstate \<Rightarrow> failure + pstate" where
  "parse_bucket tname name lines st =
     (if \<not> count (type_id st) tname then
        die [Txt ''bucket type '', quote, Txt tname, quote, Txt '' is not defined'', endl] st
      else if count (item_id st) name then
        die [Txt ''bucket or device '', quote, Txt name, quote, Txt '' is already defined'',
             endl] st
      else
        (case scan_lines name lines (0, None, [], 0) st of
           Inl f \<Rightarrow> Inl f
         | Inr (i0, alg, used, sz0) \<Rightarrow>
             (let sz = (if used \<noteq> [] then max sz0 (list_max used) else sz0)
              in case place_items name lines used sz
                        (0, Fin 0, replicate (nat sz) 0, replicate (nat sz) 0) st of
                   Inl f \<Rightarrow> Inl f
                 | Inr (curpos, bucketweight, items, weights) \<Rightarrow>
                     Inr (register_bucket name
                            (if i0 = 0 then next_bucket_id (id_item st) (- 1) else i0)
                            alg (lookup 0 (type_id st) tname) sz bucketweight items weights
                            st))))"

section \<open>parse_rule\<close>

definition pg_type_of_name :: "string \<Rightarrow> pg_type option" where
  "pg_type_of_name t =
     (if t = ''replicated'' then Some CEPH_PG_TYPE_REP
      else if t = ''raid4'' then Some CEPH_PG_TYPE_RAID4
      else None)"

definition choose_op :: "string \<Rightarrow> string \<Rightarrow> rule_op option" where
  "choose_op word mode =
     (if word = ''choose'' then
        (if mode = ''firstn'' then Some CRUSH_RULE_CHOOSE_FIRSTN
         else if mode = ''indep'' then Some CRUSH_RULE_CHOOSE_INDEP else None)
      else if word = ''chooseleaf'' then
        (if mode = ''firstn'' then Some CRUSH_RULE_CHOOSE_LEAF_FIRSTN
         else if mode = ''indep'' then Some CRUSH_RULE_CHOOSE_LEAF_INDEP else None)
      else None)"

fun parse_steps :: "string \<Rightarrow> nat \<Rightarrow> nat \<Rightarrow> step_node list \<Rightarrow> pstate \<Rightarrow> failure + pstate" where
  "parse_steps rname ruleno step [] st = Inr st"
| "parse_steps rname ruleno step (StepTake item # ps) st =
     (if \<not> count (item_id st) item then
        die [Txt ''in rule '', quote, Txt rname, quote, Txt '' item '', quote, Txt item, quote,
             Txt '' not defined'', endl] st
      else parse_steps rname ruleno (Suc step) ps
             (st\<lparr>crush := set_rule_step ruleno step CRUSH_RULE_TAKE
                               (lookup 0 (item_id st) item) 0 (crush st)\<rparr>))"
| "parse_steps rname ruleno step (StepChoose word mode n ty # ps) st =
     (if \<not> count (type_id st) ty then
        die [Txt ''in rule '', quote, Txt rname, quote, Txt '' type '', quote, Txt ty, quote,
             Txt '' not defined'', endl] st
      else
        (case choose_op word mode of
           None \<Rightarrow> halt Abort st
         | Some opc \<Rightarrow>
             parse_steps rname ruleno (Suc step) ps
               (st\<lparr>crush := set_rule_step ruleno step opc (int_node n)
                                 (lookup 0 (type_id st) ty) (crush st)\<rparr>)))"
| "parse_steps rname ruleno step (StepEmit # ps) st =
     parse_steps rname ruleno (Suc step) ps
       (st\<lparr>crush := set_rule_step ruleno step CRUSH_RULE_EMIT 0 0 (crush st)\<rparr>)"
| "parse_steps rname ruleno step (StepOther stepid # ps) st =
     Inl (Failure Abort (cout st) (cerr st @ [Txt ''bad crush step '', Dec stepid, endl]))"

definition parse_rule ::
  "string \<Rightarrow> string \<Rightarrow> string \<Rightarrow> string \<Rightarrow> string \<Rightarrow> step_node list \<Rightarrow> pstate
     \<Rightarrow> failure + pstate" where
  "parse_rule child1 pool tname minsize maxsize steps st =
     (if child1 \<noteq> ''{'' \<and> count (rule_id st) child1 then
        die [Txt ''rule name '', quote, Txt child1, quote, Txt '' already defined'',
             Txt [CHR 0x0A], endl] st
      else
        (case pg_type_of_name tname of
           None \<Rightarrow> halt Abort st
         | Some ty \<Rightarrow>
             (let rname = (if child1 \<noteq> ''{'' then child1 else []);
                  added = add_rule (length steps) (int_node pool) ty (int_node minsize)
                            (int_node maxsize) (crush st);
                  ruleno = fst added;
                  st1 = st\<lparr>crush := snd added\<rparr>;
                  st2 = (if rname \<noteq> [] then
                           st1\<lparr>crush := set_rule_name (int ruleno) rname (crush st1),
                                rule_id := AList.update rname (int ruleno) (rule_id st1)\<rparr>
                         else st1)
              in parse_steps rname ruleno 0 steps st2)))"

section \<open>parse_crush\<close>

text \<open>
  \<open>find_used_bucket_ids\<close> looks at child 3 of every bucket node, the first line of the
  block, and registers its id when its tag is \<open>id\<close>. In a block without lines child 3
  is the closing brace, a leaf, whose child 0 does not exist.
\<close>

fun find_used_bucket_ids :: "node list \<Rightarrow> pstate \<Rightarrow> failure + pstate" where
  "find_used_bucket_ids [] st = Inr st"
| "find_used_bucket_ids (BucketNode tname name [] # ps) st = halt Undefined st"
| "find_used_bucket_ids (BucketNode tname name (BucketLine tag a opts # ls) # ps) st =
     (if tag = ''id'' then
        find_used_bucket_ids ps (st\<lparr>id_item := AList.update (int_node a) [] (id_item st)\<rparr>)
      else find_used_bucket_ids ps st)"
| "find_used_bucket_ids (_ # ps) st = find_used_bucket_ids ps st"

fun parse_node :: "node \<Rightarrow> pstate \<Rightarrow> failure + pstate" where
  "parse_node (Device idtext name rest) st = parse_device idtext name rest st"
| "parse_node (BucketType idtext name) st = parse_bucket_type idtext name st"
| "parse_node (BucketNode tname name lines) st = parse_bucket tname name lines st"
| "parse_node (CrushRule child1 pool tname minsize maxsize steps) st =
     parse_rule child1 pool tname minsize maxsize steps st"
| "parse_node OtherNode st = halt Abort st"

fun parse_nodes :: "node list \<Rightarrow> pstate \<Rightarrow> failure + pstate" where
  "parse_nodes [] st = Inr st"
| "parse_nodes (p # ps) st =
     (case parse_node p st of Inl f \<Rightarrow> Inl f | Inr st1 \<Rightarrow> parse_nodes ps st1)"

definition apply_offloads :: "pstate \<Rightarrow> crush_map \<Rightarrow> crush_map" where
  "apply_offloads st c =
     foldl (\<lambda>c' i. if count (device_offload st) (int i)
                    then set_offload (int i) (lookup 0 (device_offload st) (int i)) c' else c')
       c [0 ..< nat (get_max_devices c)]"

definition parse_crush :: "node list \<Rightarrow> pstate \<Rightarrow> failure + pstate" where
  "parse_crush tree st =
     (case find_used_bucket_ids tree st of
        Inl f \<Rightarrow> Inl f
      | Inr st1 \<Rightarrow>
          (case parse_nodes tree st1 of
             Inl f \<Rightarrow> Inl f
           | Inr st2 \<Rightarrow> Inr (st2\<lparr>crush := apply_offloads st2 (finalize (crush st2))\<rparr>)))"

section \<open>compile_crush_file\<close>

text \<open>
  What the program finds outside itself: the files it can read, the parser generated
  from the grammar (whether the whole text matched, where it stopped, the tree), the
  binary codec of the map (\<open>decode\<close> gives \<open>None\<close> where it throws), whether an
  \<open>ofstream\<close> can be opened on a name, the value \<open>bufferlist::write_file\<close> returns,
  and the text of an error number.
\<close>

record parse_info =
  full :: bool
  stop_at :: nat
  trees :: "node list"

record env =
  files :: "(string \<times> string) list"
  ast_parse :: "string \<Rightarrow> parse_info"
  decode :: "string \<Rightarrow> crush_map option"
  encode :: "crush_map \<Rightarrow> string"
  can_open :: "string \<Rightarrow> bool"
  write_file :: "string \<Rightarrow> string \<Rightarrow> int"
  strerror :: "int \<Rightarrow> string"

text \<open>The lines \<open>getline\<close> delivers.\<close>

fun getlines :: "string \<Rightarrow> string \<Rightarrow> string list" where
  "getlines cur [] = (if cur = [] then [] else [cur])"
| "getlines cur (c # cs) =
     (if c = CHR 0x0A then cur # getlines [] cs else getlines (cur @ [c]) cs)"

text \<open>
  The reading loop: the line is recorded, its comment is cut off, and the rest is
  appended to \<open>big\<close> after a blank; \<open>line_pos\<close> maps the offset in \<open>big\<close> at which a line
  starts to its number.
\<close>

fun read_lines ::
  "string list \<Rightarrow> string \<times> int \<times> (int \<times> int) list \<times> (int \<times> string) list \<times> pstate
     \<Rightarrow> string \<times> int \<times> (int \<times> int) list \<times> (int \<times> string) list \<times> pstate" where
  "read_lines [] acc = acc"
| "read_lines (str # rest) (big, line, line_pos, line_val, st) =
     (let stripped = takeWhile (\<lambda>c. c \<noteq> CHR ''#'') str;
          st1 = (if 1 < verbose st
                 then st\<lparr>cout := cout st @ [Dec line, Txt '': '', Txt stripped, endl]\<rparr> else st);
          big1 = (if big \<noteq> [] then big @ '' '' else big)
      in read_lines rest
           (big1 @ stripped, line + 1, AList.update (int (length big1)) line line_pos,
            AList.update line str line_val, st1))"

definition ENOENT :: int where
  "ENOENT = 2"

definition parse_error ::
  "string \<Rightarrow> nat \<Rightarrow> (int \<times> int) list \<Rightarrow> (int \<times> string) list \<Rightarrow> pstate \<Rightarrow> failure + int \<times> pstate" where
  "parse_error infn cpos line_pos line_val st =
     (if line_pos = [] then halt Abort st
      else
        (let below = takeWhile (\<lambda>e. fst e \<le> int cpos) line_pos;
             p = (if below = [] then hd line_pos else last below);
             line = snd p;
             pos = int cpos - fst p
         in if pos < 0 \<or> int (length (lookup [] line_val line)) < pos then halt Abort st
            else Inr (1, st\<lparr>cerr := cerr st @
                       [Txt infn, Txt '':'', Dec line, Txt '' error: parse error at '', quote,
                        Txt (drop (nat pos) (lookup [] line_val line)), quote, endl]\<rparr>)))"

definition compile_crush_file :: "env \<Rightarrow> string \<Rightarrow> pstate \<Rightarrow> failure + int \<times> pstate" where
  "compile_crush_file e infn st =
     (case map_of (files e) infn of
        None \<Rightarrow>
          Inr (- ENOENT, st\<lparr>cerr := cerr st @ [Txt ''input file '', Txt infn,
                                              Txt '' not found'', endl]\<rparr>)
      | Some content \<Rightarrow>
          (case read_lines (getlines [] content) ([], 1, [], [], st) of
             (big, line, line_pos, line_val, st1) \<Rightarrow>
               (let st2 = (if 2 < verbose st1
                           then st1\<lparr>cout := cout st1 @ [Txt ''whole file is: '', Txt [CHR 0x22],
                                                        Txt big, Txt [CHR 0x22], endl]\<rparr>
                           else st1);
                    info = ast_parse e big
                in if \<not> full info then parse_error infn (stop_at info) line_pos line_val st2
                   else (case parse_crush (trees info) st2 of
                           Inl f \<Rightarrow> Inl f
                         | Inr st3 \<Rightarrow> Inr (0, st3)))))"

section \<open>decompile_crush\<close>

text \<open>
  Modelled from the spec: the read accessors of \<open>CrushWrapper\<close> and
  \<open>crush_bucket_alg_name\<close>. The bucket table is indexed by \<open>-1 - id\<close> and the rule table
  by the rule's number; a bucket's size is the length of its vector of items.
\<close>

definition get_item_name :: "crush_map \<Rightarrow> int \<Rightarrow> string option" where
  "get_item_name c t = map_of (item_names c) t"

definition get_type_name :: "crush_map \<Rightarrow> int \<Rightarrow> string option" where
  "get_type_name c t = map_of (type_names c) t"

definition get_rule_name :: "crush_map \<Rightarrow> int \<Rightarrow> string option" where
  "get_rule_name c t = map_of (rule_names c) t"

definition get_max_buckets :: "crush_map \<Rightarrow> int" where
  "get_max_buckets c = foldl max 0 (map (\<lambda>e. - fst e) (buckets c))"

definition crush_bucket_alg_name :: "bucket_alg option \<Rightarrow> string" where
  "crush_bucket_alg_name alg =
     (case alg of
        Some CRUSH_BUCKET_UNIFORM \<Rightarrow> ''uniform''
      | Some CRUSH_BUCKET_LIST \<Rightarrow> ''list''
      | Some CRUSH_BUCKET_TREE \<Rightarrow> ''tree''
      | Some CRUSH_BUCKET_STRAW \<Rightarrow> ''straw''
      | None \<Rightarrow> ''unknown'')"

definition nl :: string where
  "nl = [CHR 0x0A]"

definition tab :: string where
  "tab = [CHR 0x09]"

definition print_type_name :: "int \<Rightarrow> crush_map \<Rightarrow> string" where
  "print_type_name t c =
     (case get_type_name c t of
        Some name \<Rightarrow> name
      | None \<Rightarrow> if t = 0 then ''device'' else ''type'' @ show_int t)"

definition print_item_name :: "int \<Rightarrow> crush_map \<Rightarrow> string" where
  "print_item_name t c =
     (case get_item_name c t of
        Some name \<Rightarrow> name
      | None \<Rightarrow> if 0 \<le> t then ''device'' @ show_int t else ''bucket'' @ show_int (- 1 - t))"

definition print_rule_name :: "int \<Rightarrow> crush_map \<Rightarrow> string" where
  "print_rule_name t c =
     (case get_rule_name c t of Some name \<Rightarrow> name | None \<Rightarrow> ''rule'' @ show_int t)"

text \<open>
  \<open>sprintf(s, "%.3f", x)\<close>: the value rounded to three decimals (ties to even on the
  exact value), a minus sign for a negative value.
\<close>

definition pad3 :: "string \<Rightarrow> string" where
  "pad3 ds = replicate (3 - length ds) (CHR ''0'') @ ds"

definition sprintf_3f :: "rat \<Rightarrow> string" where
  "sprintf_3f v =
     (let n = nat (round_even (\<bar>v\<bar> * 1000))
      in (if v < 0 then ''-'' else []) @ show_nat (n div 1000) @ ''.'' @ pad3 (show_nat (n mod 1000)))"

definition print_fixedpoint :: "int \<Rightarrow> string" where
  "print_fixedpoint i =
     (case div_0x10000 (int_to_float i) of
        Fin v \<Rightarrow> sprintf_3f v
      | PInf \<Rightarrow> ''inf'' | NInf \<Rightarrow> ''-inf'' | NaN \<Rightarrow> ''nan'')"

definition c_div :: "int \<Rightarrow> int \<Rightarrow> int" where
  "c_div a b = sgn a * sgn b * (\<bar>a\<bar> div \<bar>b\<bar>)"

definition decompile_device :: "crush_map \<Rightarrow> int \<Rightarrow> string" where
  "decompile_device c i =
     ''device '' @ show_int i @ '' '' @ print_item_name i c
     @ (if get_device_offload c i \<noteq> 0
        then '' offload '' @ print_fixedpoint (get_device_offload c i) else [])
     @ nl"

text \<open>
  The loop over the types counts the names down from their number and stops at 0; it
  visits the ids from 0 upwards, so with a name at a negative id the counter \<open>i\<close>
  runs past the largest \<open>int\<close>, which is undefined.
\<close>

definition decompile_type :: "crush_map \<Rightarrow> int \<Rightarrow> string" where
  "decompile_type c i =
     (case get_type_name c i of
        None \<Rightarrow> if i = 0 then ''type 0 device'' @ nl else []
      | Some name \<Rightarrow> ''type '' @ show_int i @ '' '' @ name @ nl)"

definition decompile_types :: "crush_map \<Rightarrow> string option" where
  "decompile_types c =
     (let ids = map fst (type_names c)
      in if ids = [] then Some []
         else if \<exists>i \<in> set ids. i < 0 then None
         else Some (concat (map (\<lambda>i. decompile_type c (int i)) [0 ..< Suc (nat (list_max ids))])))"

definition decompile_item ::
  "crush_map \<Rightarrow> bucket_alg option \<Rightarrow> bool \<Rightarrow> int \<Rightarrow> int \<times> int \<Rightarrow> string" where
  "decompile_item c alg dopos j child =
     tab @ ''item '' @ print_item_name (fst child) c @ '' weight ''
     @ print_fixedpoint (snd child)
     @ (if dopos then
          (if alg = Some CRUSH_BUCKET_TREE
           then '' pos '' @ show_int (c_div (j - 1) 2)
           else '' pos '' @ show_int j)
        else [])
     @ nl"

text \<open>The loop over the children, from index \<open>j\<close> on.\<close>

fun decompile_items ::
  "crush_map \<Rightarrow> bucket_alg option \<Rightarrow> bool \<Rightarrow> int \<Rightarrow> (int \<times> int) list \<Rightarrow> string" where
  "decompile_items c alg dopos j [] = []"
| "decompile_items c alg dopos j (child # rest) =
     (if snd child = 0 then decompile_items c alg True (j + 1) rest
      else decompile_item c alg dopos j child @ decompile_items c alg dopos (j + 1) rest)"

definition decompile_bucket :: "crush_map \<Rightarrow> int \<Rightarrow> string" where
  "decompile_bucket c i =
     (case map_of (buckets c) i of
        None \<Rightarrow> []
      | Some b \<Rightarrow>
          print_type_name (b_type b) c @ '' '' @ print_item_name i c @ '' {'' @ nl
          @ tab @ ''id '' @ show_int i @ tab @ tab @ ''# do not change unnecessarily'' @ nl
          @ tab @ ''alg '' @ crush_bucket_alg_name (b_alg b)
          @ (case b_alg b of
               Some CRUSH_BUCKET_UNIFORM \<Rightarrow>
                 tab @ ''# do not change bucket size ('' @ show_int (int (length (b_children b)))
                 @ '') unnecessarily''
             | Some CRUSH_BUCKET_LIST \<Rightarrow>
                 tab @ ''# add new items at the end; do not change order unnecessarily''
             | Some CRUSH_BUCKET_TREE \<Rightarrow>
                 tab @ ''# do not change pos for existing items unnecessarily''
             | _ \<Rightarrow> [])
          @ nl
          @ decompile_items c (b_alg b)
              (b_alg b = Some CRUSH_BUCKET_UNIFORM \<or> b_alg b = Some CRUSH_BUCKET_TREE)
              0 (b_children b)
          @ ''}'' @ nl)"

definition decompile_step :: "crush_map \<Rightarrow> rule_op \<times> int \<times> int \<Rightarrow> string" where
  "decompile_step c stp =
     (case stp of (opc, arg1, arg2) \<Rightarrow>
        (case opc of
           CRUSH_RULE_NOOP \<Rightarrow> tab @ ''step noop'' @ nl
         | CRUSH_RULE_TAKE \<Rightarrow> tab @ ''step take '' @ print_item_name arg1 c @ nl
         | CRUSH_RULE_EMIT \<Rightarrow> tab @ ''step emit'' @ nl
         | CRUSH_RULE_CHOOSE_FIRSTN \<Rightarrow>
             tab @ ''step choose firstn '' @ show_int arg1 @ '' type ''
             @ print_type_name arg2 c @ nl
         | CRUSH_RULE_CHOOSE_INDEP \<Rightarrow>
             tab @ ''step choose indep '' @ show_int arg1 @ '' type ''
             @ print_type_name arg2 c @ nl
         | CRUSH_RULE_CHOOSE_LEAF_FIRSTN \<Rightarrow>
             tab @ ''step chooseleaf firstn '' @ show_int arg1 @ '' type ''
             @ print_type_name arg2 c @ nl
         | CRUSH_RULE_CHOOSE_LEAF_INDEP \<Rightarrow>
             tab @ ''step chooseleaf indep '' @ show_int arg1 @ '' type ''
             @ print_type_name arg2 c @ nl))"

definition decompile_rule :: "crush_map \<Rightarrow> nat \<Rightarrow> string" where
  "decompile_rule c i =
     (case rules c ! i of
        None \<Rightarrow> []
      | Some r \<Rightarrow>
          ''rule ''
          @ (if get_rule_name c (int i) \<noteq> None then print_rule_name (int i) c else [])
          @ '' {'' @ nl
          @ tab @ ''pool '' @ show_int (r_pool r) @ nl
          @ (case r_type r of
               CEPH_PG_TYPE_REP \<Rightarrow> tab @ ''type replicated'' @ nl
             | CEPH_PG_TYPE_RAID4 \<Rightarrow> tab @ ''type raid4'' @ nl
             | PG_TYPE_OTHER t \<Rightarrow> tab @ ''type '' @ show_int t @ nl)
          @ tab @ ''min_size '' @ show_int (r_min_size r) @ nl
          @ tab @ ''max_size '' @ show_int (r_max_size r) @ nl
          @ concat (map (decompile_step c) (r_steps r))
          @ ''}'' @ nl)"

text \<open>
  The text written to the stream, or \<open>None\<close> where the loop over the types is
  undefined. The value returned by \<open>decompile_crush\<close> is always 0.
\<close>

definition decompile_crush :: "crush_map \<Rightarrow> string option" where
  "decompile_crush c =
     (case decompile_types c of
        None \<Rightarrow> None
      | Some types \<Rightarrow>
          Some (''# begin crush map'' @ nl @ nl
                @ ''# devices'' @ nl
                @ concat (map (\<lambda>i. decompile_device c (int i)) [0 ..< nat (get_max_devices c)])
                @ nl @ ''# types'' @ nl
                @ types
                @ nl @ ''# buckets'' @ nl
                @ concat (map (\<lambda>k. decompile_bucket c (- 1 - int k))
                            [0 ..< nat (get_max_buckets c)])
                @ nl @ ''# rules'' @ nl
                @ concat (map (decompile_rule c) [0 ..< length (rules c)])
                @ nl @ ''# end crush map'' @ nl))"

section \<open>main\<close>

record options =
  cinfn :: "string option"
  dinfn :: "string option"
  outfn :: "string option"
  clobber :: bool
  verbosity :: int

text \<open>
  What a run of the program leaves behind: how it ended, the two streams, and the
  files it wrote (name and new content, an existing file being replaced).
\<close>

record result =
  status :: stop
  std_out :: out
  std_err :: out
  written :: "(string \<times> string) list"

text \<open>
  The loop over the arguments. An option that takes a value reads the next
  argument, which does not exist after the last one (\<open>Undefined\<close>); an unknown
  argument calls \<open>usage\<close>, which exits with 1.
\<close>

fun parse_args :: "string list \<Rightarrow> options \<Rightarrow> stop + options" where
  "parse_args [] opts = Inr opts"
| "parse_args (a # args) opts =
     (if a = ''--clobber'' then parse_args args (opts\<lparr>clobber := True\<rparr>)
      else if a = ''-d'' then
        (case args of [] \<Rightarrow> Inl Undefined | v # rest \<Rightarrow> parse_args rest (opts\<lparr>dinfn := Some v\<rparr>))
      else if a = ''-o'' then
        (case args of [] \<Rightarrow> Inl Undefined | v # rest \<Rightarrow> parse_args rest (opts\<lparr>outfn := Some v\<rparr>))
      else if a = ''-c'' then
        (case args of [] \<Rightarrow> Inl Undefined | v # rest \<Rightarrow> parse_args rest (opts\<lparr>cinfn := Some v\<rparr>))
      else if a = ''-v'' then parse_args args (opts\<lparr>verbosity := verbosity opts + 1\<rparr>)
      else Inl (Exit 1))"

definition no_options :: options where
  "no_options = \<lparr>cinfn = None, dinfn = None, outfn = None, clobber = False, verbosity = 0\<rparr>"

definition usage :: "string \<Rightarrow> result" where
  "usage me =
     \<lparr>status = Exit 1,
      std_out = [Txt me, Txt '': usage: crushtool [-d map] [-c map.txt] [-o outfile [--clobber]]'',
                 endl],
      std_err = [], written = []\<rparr>"

definition initial_state :: "int \<Rightarrow> pstate" where
  "initial_state v =
     \<lparr>item_id = [], id_item = [], item_weight = [], device_offload = [], type_id = [],
      rule_id = [], verbose = v, crush = create, cout = [], cerr = []\<rparr>"

definition main_decompile :: "env \<Rightarrow> string \<Rightarrow> string \<Rightarrow> string option \<Rightarrow> result" where
  "main_decompile e me infn ofn =
     (case map_of (files e) infn of
        None \<Rightarrow>
          \<lparr>status = Exit 1, std_out = [],
           std_err = [Txt me, Txt '': error reading '', quote, Txt infn, quote, Txt '': '',
                      Txt (strerror e ENOENT), endl],
           written = []\<rparr>
      | Some bytes \<Rightarrow>
          (case decode e bytes of
             None \<Rightarrow> \<lparr>status = Abort, std_out = [], std_err = [], written = []\<rparr>
           | Some c \<Rightarrow>
               (case ofn of
                  Some fn \<Rightarrow>
                    if \<not> can_open e fn then
                      \<lparr>status = Exit 1, std_out = [],
                       std_err = [Txt me, Txt '': error writing '', quote, Txt fn, quote, endl],
                       written = []\<rparr>
                    else
                      (case decompile_crush c of
                         None \<Rightarrow> \<lparr>status = Undefined, std_out = [], std_err = [], written = []\<rparr>
                       | Some text \<Rightarrow>
                           \<lparr>status = Exit 0, std_out = [], std_err = [], written = [(fn, text)]\<rparr>)
                | None \<Rightarrow>
                    (case decompile_crush c of
                       None \<Rightarrow> \<lparr>status = Undefined, std_out = [], std_err = [], written = []\<rparr>
                     | Some text \<Rightarrow>
                         \<lparr>status = Exit 0, std_out = [Txt text], std_err = [], written = []\<rparr>))))"

definition main_compile :: "env \<Rightarrow> string \<Rightarrow> string \<Rightarrow> string option \<Rightarrow> int \<Rightarrow> result" where
  "main_compile e me infn ofn v =
     (case compile_crush_file e infn (initial_state v) of
        Inl (Failure why so se) \<Rightarrow> \<lparr>status = why, std_out = so, std_err = se, written = []\<rparr>
      | Inr (r, st) \<Rightarrow>
          if r < 0 then
            \<lparr>status = Exit 1, std_out = cout st, std_err = cerr st, written = []\<rparr>
          else
            (case ofn of
               Some fn \<Rightarrow>
                 if write_file e fn (encode e (finalize (crush st))) < 0 then
                   \<lparr>status = Exit 1, std_out = cout st,
                    std_err = cerr st @
                      [Txt me, Txt '': error writing '', quote, Txt fn, quote, Txt '': '',
                       Txt (strerror e (- write_file e fn (encode e (finalize (crush st))))),
                       endl],
                    written = []\<rparr>
                 else
                   \<lparr>status = Exit 0,
                    std_out = cout st @
                      (if v \<noteq> 0 then [Txt ''wrote crush map to '', Txt fn, endl] else []),
                    std_err = cerr st,
                    written = [(fn, encode e (finalize (crush st)))]\<rparr>
             | None \<Rightarrow>
                 \<lparr>status = Exit 0,
                  std_out = cout st @
                    [Txt me, Txt '' successfully compiled '', quote, Txt infn, quote,
                     Txt ''.  Use -o file to write it out.'', endl],
                  std_err = cerr st, written = []\<rparr>))"

definition main :: "env \<Rightarrow> string \<Rightarrow> string list \<Rightarrow> result" where
  "main e me args =
     (case parse_args args no_options of
        Inl Undefined \<Rightarrow> \<lparr>status = Undefined, std_out = [], std_err = [], written = []\<rparr>
      | Inl _ \<Rightarrow> usage me
      | Inr opts \<Rightarrow>
          if cinfn opts \<noteq> None \<and> dinfn opts \<noteq> None then usage me
          else if cinfn opts = None \<and> dinfn opts = None then usage me
          else
            (case dinfn opts of
               Some infn \<Rightarrow> main_decompile e me infn (outfn opts)
             | None \<Rightarrow>
                 (case cinfn opts of
                    Some infn \<Rightarrow> main_compile e me infn (outfn opts) (verbosity opts)
                  | None \<Rightarrow> \<lparr>status = Exit 0, std_out = [], std_err = [], written = []\<rparr>)))"

section \<open>Auxiliary definitions for the statements\<close>

text \<open>The options without the \<open>clobber\<close> flag.\<close>

definition sans_clobber :: "options \<Rightarrow> options" where
  "sans_clobber opts = opts\<lparr>clobber := False\<rparr>"

text \<open>
  Two concrete surroundings for running \<open>main\<close>. In the first the file \<open>bad.txt\<close>
  holds a misspelt declaration and the parser stops at offset 0 without a full match.
  In the second the parser matches \<open>map.txt\<close> in full and yields one device node, and
  the codec reads \<open>map.bin\<close> as the map with that device.
\<close>

definition reject_env :: env where
  "reject_env =
     \<lparr>files = [(''bad.txt'', ''devic 0 osd0'' @ nl)],
      ast_parse = (\<lambda>s. \<lparr>full = False, stop_at = 0, trees = []\<rparr>),
      decode = (\<lambda>s. None), encode = (\<lambda>c. []), can_open = (\<lambda>f. True),
      write_file = (\<lambda>f s. 0), strerror = (\<lambda>n. [])\<rparr>"

definition demo_map :: crush_map where
  "demo_map = create\<lparr>max_devices := 1, item_names := [(0, ''osd0'')]\<rparr>"

definition demo_env :: env where
  "demo_env =
     \<lparr>files = [(''map.txt'', ''device 0 osd0'' @ nl), (''map.bin'', ''bytes'')],
      ast_parse = (\<lambda>s. \<lparr>full = True, stop_at = length s, trees = [Device ''0'' ''osd0'' []]\<rparr>),
      decode = (\<lambda>s. Some demo_map), encode = (\<lambda>c. ''bytes''), can_open = (\<lambda>f. True),
      write_file = (\<lambda>f s. 0), strerror = (\<lambda>n. [])\<rparr>"









section \<open>Evaluation lemmas\<close>

lemma floor_rat_numeral [simp]:
  "\<lfloor>numeral a / numeral b :: rat\<rfloor> = numeral a div numeral b"
  by (metis floor_divide_of_int_eq of_int_numeral)

lemma floor_rat_neg_numeral [simp]:
  "\<lfloor>- (numeral a / numeral b) :: rat\<rfloor> = - numeral a div numeral b"
  by (metis floor_divide_of_int_eq of_int_numeral of_int_minus minus_divide_left)

lemma floor_rat_one_numeral [simp]:
  "\<lfloor>1 / numeral b :: rat\<rfloor> = 1 div numeral b"
  by (metis floor_divide_of_int_eq of_int_numeral of_int_1)

lemma floor_rat_neg_one_numeral [simp]:
  "\<lfloor>- (1 / numeral b) :: rat\<rfloor> = - 1 div numeral b"
  by (metis floor_divide_of_int_eq of_int_numeral of_int_1 of_int_minus minus_divide_left)

lemmas float_eval = to_float_def to_double_def fp_round_def fp_exponent_def pow2_def
  round_even_def Let_def bitlen_nat.simps trunc_def fixed_point_def int_to_float_def

lemmas text_eval = strtof_def strtol_def split_sign_def dec_exponent_def pow10_def
  is_digit_def is_space_def digit_val_def int_node_def float_node_def to_int32_def
  show_int_def show_nat.simps digit_char_def Dec_def quote_def endl_def nl_def tab_def

lemmas crush_eval = create_def set_item_name_def set_type_name_def set_rule_name_def
  get_max_devices_def set_max_devices_def add_bucket_def add_rule_def set_rule_step_def
  map_index_rule_def finalize_def set_offload_def get_device_offload_def

lemmas parse_eval = parse_device_def check_offload_def finish_device_def
  parse_bucket_type_def parse_bucket_def register_bucket_def default_weight_def
  parse_rule_def parse_crush_def apply_offloads_def count_def lookup_def say_def die_def
  halt_def alg_of_name_def pg_type_of_name_def choose_op_def next_free.simps
  next_bucket_id.simps initial_state_def

lemmas main_eval = main_def main_compile_def main_decompile_def usage_def no_options_def
  compile_crush_file_def parse_error_def ENOENT_def

section \<open>Properties of the floating-point model\<close>







lemma bitlen_nat_bounds:
  "0 < n \<Longrightarrow> 2 ^ (bitlen_nat n - 1) \<le> n \<and> n < 2 ^ bitlen_nat n"
proof (induction n rule: bitlen_nat.induct)
  case (1 n)
  show ?case
  proof (cases "n div 2 = 0")
    case True
    then have "n = 1" using "1.prems" by presburger
    then show ?thesis by (simp add: bitlen_nat.simps)
  next
    case False
    then have ih: "2 ^ (bitlen_nat (n div 2) - 1) \<le> n div 2" "n div 2 < 2 ^ bitlen_nat (n div 2)"
      using "1.IH" "1.prems" by auto
    have pos: "0 < bitlen_nat (n div 2)"
      using False by (subst bitlen_nat.simps) simp
    have eq: "bitlen_nat n = Suc (bitlen_nat (n div 2))"
      using "1.prems" by (subst bitlen_nat.simps) simp
    have "2 * 2 ^ (bitlen_nat (n div 2) - 1) \<le> n"
      using ih(1) by linarith
    moreover have "2 * (2::nat) ^ (bitlen_nat (n div 2) - 1) = 2 ^ bitlen_nat (n div 2)"
      using pos by (cases "bitlen_nat (n div 2)") simp_all
    moreover have "n < 2 * 2 ^ bitlen_nat (n div 2)"
      using ih(2) by linarith
    ultimately show ?thesis
      by (simp add: eq)
  qed
qed

lemma bitlen_nat_le: "n < 2 ^ k \<Longrightarrow> bitlen_nat n \<le> k"
proof (cases "n = 0")
  case True
  then show ?thesis by (simp add: bitlen_nat.simps)
next
  case False
  assume "n < 2 ^ k"
  moreover have "2 ^ (bitlen_nat n - 1) \<le> n"
    using bitlen_nat_bounds False by simp
  ultimately have "(2::nat) ^ (bitlen_nat n - 1) < 2 ^ k"
    by linarith
  then have "bitlen_nat n - 1 < k"
    by simp
  then show ?thesis by linarith
qed


lemma round_even_bounds: "of_int (round_even x) \<le> x + 1 / 2 \<and> x - 1 / 2 \<le> of_int (round_even x)"
  unfolding round_even_def Let_def
  by (auto simp: not_less) linarith+



















lemmas run_eval = parse_eval crush_eval text_eval float_eval

section \<open>The command line\<close>

text \<open>
  Claim C2 (exit status). A text that the grammar does not match is an error, and the
  claim wants exit status 1 for it. \<open>compile_crush_file\<close> reports the parse error on
  \<open>cerr\<close> and returns 1, but \<open>main\<close> only tests \<open>r < 0\<close>: the run goes on, announces
  a successful compilation on \<open>cout\<close> and ends with status 0.
\<close>

theorem parse_error_exits_with_0:
  "main reject_env ''crushtool'' [''-c'', ''bad.txt''] =
     \<lparr>status = Exit 0,
      std_out = [Txt ''crushtool'', Txt '' successfully compiled '', quote, Txt ''bad.txt'', quote,
                 Txt ''.  Use -o file to write it out.'', endl],
      std_err = [Txt ''bad.txt'', Txt '':'', Txt ''1'', Txt '' error: parse error at '', quote,
                 Txt ''devic 0 osd0'', quote, endl],
      written = []\<rparr>"
  by (simp add: reject_env_def main_eval run_eval cong: let_weak_cong)




lemma parse_args_append:
  "parse_args xs opts = Inr opts' \<Longrightarrow> parse_args (xs @ zs) opts = parse_args zs opts'"
proof (induction xs opts rule: parse_args.induct)
  case (1 opts)
  then show ?case by simp
next
  case (2 a args opts)
  then show ?case
    by (auto split: if_splits list.splits)
qed

lemma parse_args_sans_clobber:
  "sans_clobber o1 = sans_clobber o2 \<Longrightarrow>
   map_sum id sans_clobber (parse_args zs o1) = map_sum id sans_clobber (parse_args zs o2)"
proof (induction zs o1 arbitrary: o2 rule: parse_args.induct)
  case (1 opts)
  then show ?case by simp
next
  case (2 a args opts)
  have eqs: "dinfn opts = dinfn o2" "cinfn opts = cinfn o2" "outfn opts = outfn o2"
    "verbosity opts = verbosity o2"
    using "2.prems" unfolding sans_clobber_def
    by (metis options.ext_inject options.surjective options.update_convs(4))+
  have upd: "sans_clobber (opts\<lparr>clobber := True\<rparr>) = sans_clobber (o2\<lparr>clobber := True\<rparr>)"
    "\<And>v. sans_clobber (opts\<lparr>dinfn := Some v\<rparr>) = sans_clobber (o2\<lparr>dinfn := Some v\<rparr>)"
    "\<And>v. sans_clobber (opts\<lparr>cinfn := Some v\<rparr>) = sans_clobber (o2\<lparr>cinfn := Some v\<rparr>)"
    "\<And>v. sans_clobber (opts\<lparr>outfn := Some v\<rparr>) = sans_clobber (o2\<lparr>outfn := Some v\<rparr>)"
    "sans_clobber (opts\<lparr>verbosity := verbosity opts + 1\<rparr>) =
     sans_clobber (o2\<lparr>verbosity := verbosity o2 + 1\<rparr>)"
    using "2.prems" eqs unfolding sans_clobber_def
    by (cases opts; cases o2; simp)+
  show ?case
    using 2 upd by (auto split: list.splits)
qed

lemma main_sans_clobber:
  "map_sum id sans_clobber (parse_args a1 no_options) =
   map_sum id sans_clobber (parse_args a2 no_options)
   \<Longrightarrow> main e me a1 = main e me a2"
  unfolding main_def
  by (cases "parse_args a1 no_options"; cases "parse_args a2 no_options")
     (auto simp: sans_clobber_def split: stop.splits option.splits
           dest!: arg_cong[where f = "\<lambda>x. (cinfn x, dinfn x, outfn x, verbosity x)"])

text \<open>
  Claim C9 (\<open>--clobber\<close>). The flag is recorded and never read. Wherever the option loop
  meets it as an argument of its own, that is after a prefix \<open>xs\<close> of the arguments
  which the loop has read to the end, the run with the flag and the run without it
  are equal: same exit status, same text on both streams, same files written.
\<close>

theorem clobber_ignored:
  "parse_args xs no_options = Inr opts
   \<Longrightarrow> main e me (xs @ ''--clobber'' # ys) = main e me (xs @ ys)"
proof -
  assume p: "parse_args xs no_options = Inr opts"
  have "parse_args (xs @ ''--clobber'' # ys) no_options = parse_args ys (opts\<lparr>clobber := True\<rparr>)"
    using parse_args_append[OF p, of "''--clobber'' # ys"] by simp
  moreover have "parse_args (xs @ ys) no_options = parse_args ys opts"
    using parse_args_append[OF p] by simp
  moreover have "sans_clobber (opts\<lparr>clobber := True\<rparr>) = sans_clobber opts"
    by (simp add: sans_clobber_def)
  ultimately show ?thesis
    using parse_args_sans_clobber main_sans_clobber by metis
qed

theorem clobber_ignored_witness:
  "parse_args [''-c'', ''map.txt''] no_options = Inr (no_options\<lparr>cinfn := Some ''map.txt''\<rparr>)
   \<and> main demo_env ''crushtool'' [''-c'', ''map.txt'', ''--clobber'', ''-o'', ''out.bin''] =
       main demo_env ''crushtool'' [''-c'', ''map.txt'', ''-o'', ''out.bin'']"
proof -
  have p: "parse_args [''-c'', ''map.txt''] no_options =
      Inr (no_options\<lparr>cinfn := Some ''map.txt''\<rparr>)"
    by simp
  show ?thesis
    using p clobber_ignored [OF p, of demo_env "''crushtool''" "[''-o'', ''out.bin'']"]
    by simp
qed

section \<open>Names\<close>

text \<open>
  Claim C5 (duplicate names). A device, a bucket and a rule whose name is taken stop
  the compilation; \<open>parse_bucket_type\<close> has no such test. Declaring the type name
  \<open>host\<close> twice compiles: the second id replaces the first in \<open>type_id\<close>, and the map
  holds the name for both ids.
\<close>

theorem duplicate_type_name_compiles:
  "parse_crush [BucketType ''1'' ''host'', BucketType ''2'' ''host''] (initial_state 0) =
     Inr ((initial_state 0)\<lparr>type_id := [(''host'', 2)],
            crush := create\<lparr>type_names := [(1, ''host''), (2, ''host'')]\<rparr>\<rparr>)"
  by (simp add: run_eval cong: let_weak_cong)

section \<open>Device offloads\<close>





section \<open>Fixed-point conversion\<close>




section \<open>Bucket ids\<close>






lemma say_fields [simp]:
  "id_item (say ps st) = id_item st" "item_id (say ps st) = item_id st"
  "item_weight (say ps st) = item_weight st" "crush (say ps st) = crush st"
  "cerr (say ps st) = cerr st" "type_id (say ps st) = type_id st"
  "device_offload (say ps st) = device_offload st" "rule_id (say ps st) = rule_id st"
  "verbose (say ps st) = verbose st"
  by (simp_all add: say_def)















end
